theory Spec2Isabelle
  imports Main "HOL-Library.Word"
begin

unbundle bit_operations_syntax

section \<open>C types and the process state\<close>

text \<open>
  The two C files are modelled for an LP64 target: \<open>int\<close> and \<open>unsigned int\<close> are 32-bit
  words, \<open>long\<close>, \<open>size_t\<close> and \<open>ssize_t\<close> are 64-bit words. A word carries no sign of its
  own: a signed comparison reads it with \<open>sint\<close>, an unsigned one is the order of the word
  type. Buffers and C strings are byte lists.
\<close>

type_synonym c_int = "32 word"
type_synonym c_uint = "32 word"
type_synonym c_long = "64 word"
type_synonym size_t = "64 word"
type_synonym ssize_t = "64 word"
type_synonym mqd_t = "32 word"
type_synonym mode_t = "32 word"

text \<open>\<open>struct mq_attr\<close> of \<open>mqueue.h\<close>.\<close>

record mq_attr =
  mq_flags :: c_long
  mq_maxmsg :: c_long
  mq_msgsize :: c_long
  mq_curmsgs :: c_long

text \<open>The \<open>fcntl.h\<close> flags the code passes to \<open>mq_open\<close> (Linux values).\<close>

definition O_RDWR :: c_int where
  "O_RDWR = 2"

definition O_CREAT :: c_int where
  "O_CREAT = 64"

text \<open>
  A system call the process has issued, with the arguments it passed. \<open>mq_open\<close> is
  variadic: the third component is \<open>None\<close> for the two-argument form and carries the mode
  and the attributes for the four-argument form. For \<open>mq_send\<close> the bytes at the message
  pointer are recorded next to the length passed; for \<open>mq_receive\<close> the buffer length.
\<close>

datatype syscall =
    Mq_open string c_int "(mode_t \<times> mq_attr) option"
  | Mq_getattr mqd_t
  | Mq_close mqd_t
  | Mq_unlink string
  | Mq_send mqd_t string size_t c_uint
  | Mq_receive mqd_t size_t

text \<open>
  The operating system is a parameter of the model: a record of the calls the code makes,
  over a kernel state \<open>'k\<close>. A call returns its C return value, the value it stores in
  \<open>errno\<close> (if it stores one) and the kernel state after it. \<open>mq_getattr\<close> also returns the
  attributes it writes through its pointer argument, \<open>mq_receive\<close> the message bytes and the
  priority it writes (\<open>None\<close>: nothing written). \<open>mq_send\<close> and \<open>mq_receive\<close> block, so
  they may never return: that is the value \<open>None\<close>.
\<close>

record 'k os =
  mq_open :: "string \<Rightarrow> c_int \<Rightarrow> (mode_t \<times> mq_attr) option \<Rightarrow> 'k \<Rightarrow> mqd_t \<times> c_int option \<times> 'k"
  mq_getattr :: "mqd_t \<Rightarrow> 'k \<Rightarrow> (c_int \<times> mq_attr option) \<times> c_int option \<times> 'k"
  mq_close :: "mqd_t \<Rightarrow> 'k \<Rightarrow> c_int \<times> c_int option \<times> 'k"
  mq_unlink :: "string \<Rightarrow> 'k \<Rightarrow> c_int \<times> c_int option \<times> 'k"
  mq_send :: "mqd_t \<Rightarrow> string \<Rightarrow> size_t \<Rightarrow> c_uint \<Rightarrow> 'k \<Rightarrow> (c_int \<times> c_int option \<times> 'k) option"
  mq_receive :: "mqd_t \<Rightarrow> size_t \<Rightarrow> 'k \<Rightarrow> ((ssize_t \<times> (string \<times> c_uint) option) \<times> c_int option \<times> 'k) option"
  strerror :: "c_int \<Rightarrow> string"

text \<open>
  What a caller of the code can observe of the process: the kernel state, \<open>errno\<close>, the
  two output streams and the system calls issued so far, oldest first.
\<close>

record 'k proc =
  kernel :: 'k
  errno :: c_int
  stdout :: string
  stderr :: string
  trace :: "syscall list"

definition syscall_done :: "syscall \<Rightarrow> c_int option \<Rightarrow> 'k \<Rightarrow> 'k proc \<Rightarrow> 'k proc" where
  "syscall_done ev e k w =
     w\<lparr>kernel := k,
       errno := (case e of None \<Rightarrow> errno w | Some x \<Rightarrow> x),
       trace := trace w @ [ev]\<rparr>"

section \<open>The C library functions the code calls\<close>

text \<open>The conversion \<open>%d\<close> of \<open>printf\<close>.\<close>

fun dec_nat :: "nat \<Rightarrow> string" where
  "dec_nat n =
     (if n < 10 then [''0123456789'' ! n]
      else dec_nat (n div 10) @ [''0123456789'' ! (n mod 10)])"

declare dec_nat.simps [simp del]

definition dec_int :: "int \<Rightarrow> string" where
  "dec_int i = (if i < 0 then CHR ''-'' # dec_nat (nat (- i)) else dec_nat (nat i))"

text \<open>\<open>printf("Errno: %d\n", errno)\<close>: the text goes to standard output.\<close>

definition printf_errno :: "'k proc \<Rightarrow> 'k proc" where
  "printf_errno w =
     w\<lparr>stdout := stdout w @ ''Errno: '' @ dec_int (sint (errno w)) @ [CHR 0x0A]\<rparr>"

text \<open>\<open>perror(s)\<close>: \<open>s\<close>, a colon and a blank, the text of \<open>errno\<close>, a newline, on standard error.\<close>

definition perror :: "'k os \<Rightarrow> string \<Rightarrow> 'k proc \<Rightarrow> 'k proc" where
  "perror os s w =
     w\<lparr>stderr := stderr w @ s @ '': '' @ strerror os (errno w) @ [CHR 0x0A]\<rparr>"

text \<open>
  \<open>atoi\<close>: leading white space, an optional sign, then decimal digits up to the first
  character that is none. C leaves a value out of the range of \<open>int\<close> undefined; here it
  wraps.
\<close>

definition isspace :: "char \<Rightarrow> bool" where
  "isspace c = (c \<in> set [CHR '' '', CHR 0x09, CHR 0x0A, CHR 0x0B, CHR 0x0C, CHR 0x0D])"

definition isdigit :: "char \<Rightarrow> bool" where
  "isdigit c = (48 \<le> (of_char c :: nat) \<and> (of_char c :: nat) \<le> 57)"

fun atoi_digits :: "int \<Rightarrow> string \<Rightarrow> int" where
  "atoi_digits acc [] = acc"
| "atoi_digits acc (c # cs) =
     (if isdigit c then atoi_digits (acc * 10 + (of_char c - 48)) cs else acc)"

definition atoi :: "string \<Rightarrow> c_int" where
  "atoi s =
     (case dropWhile isspace s of
        [] \<Rightarrow> 0
      | c # cs \<Rightarrow>
          if c = CHR ''-'' then word_of_int (- atoi_digits 0 cs)
          else if c = CHR ''+'' then word_of_int (atoi_digits 0 cs)
          else word_of_int (atoi_digits 0 (c # cs)))"

section \<open>The queue client library (\<open>src/trace/posixmq.c\<close>)\<close>

text \<open>
  Every function takes the operating system and the process state and returns the process
  state after it. A pointer parameter the function writes through is a cell: the function
  takes the cell's content and returns the content after the call, in the order of the
  parameters, behind the \<open>int\<close> result. The mode \<open>0644\<close> of the source is octal:
  \<open>0x1A4\<close>.
\<close>

definition posixmq_open_create ::
  "'k os \<Rightarrow> string \<Rightarrow> size_t \<Rightarrow> size_t \<Rightarrow> c_int \<Rightarrow> 'k proc \<Rightarrow> c_int \<times> c_int \<times> 'k proc" where
  "posixmq_open_create os name max_msg_size max_queue_size mq_id_out w =
     (let attrs = \<lparr>mq_flags = 0, mq_maxmsg = max_queue_size,
                   mq_msgsize = max_msg_size, mq_curmsgs = 0\<rparr>;
          (mqd, e, k) = mq_open os name (O_CREAT OR O_RDWR) (Some (0x1A4, attrs)) (kernel w);
          w1 = syscall_done (Mq_open name (O_CREAT OR O_RDWR) (Some (0x1A4, attrs))) e k w
      in if sint mqd < 0 then (- 1, mq_id_out, printf_errno w1)
         else (0, mqd, w1))"

text \<open>
  \<open>attrs0\<close> is the indeterminate content of the local \<open>struct mq_attr attrs\<close>, which the
  code does not initialise and reads whether or not \<open>mq_getattr\<close> has filled it: the result
  of \<open>mq_getattr\<close> is not looked at.
\<close>

definition posixmq_open_existing ::
  "'k os \<Rightarrow> mq_attr \<Rightarrow> string \<Rightarrow> c_int \<Rightarrow> size_t \<Rightarrow> size_t \<Rightarrow> 'k proc
     \<Rightarrow> c_int \<times> c_int \<times> size_t \<times> size_t \<times> 'k proc" where
  "posixmq_open_existing os attrs0 name mq_id_out max_msg_size_out max_queue_size_out w =
     (let (mqd, e, k) = mq_open os name O_RDWR None (kernel w);
          w1 = syscall_done (Mq_open name O_RDWR None) e k w
      in if sint mqd < 0
         then (- 1, mq_id_out, max_msg_size_out, max_queue_size_out, printf_errno w1)
         else
           (let ((r, written), e2, k2) = mq_getattr os mqd (kernel w1);
                w2 = syscall_done (Mq_getattr mqd) e2 k2 w1;
                attrs = (case written of None \<Rightarrow> attrs0 | Some a \<Rightarrow> a)
            in (0, mqd, mq_msgsize attrs, mq_maxmsg attrs, w2)))"

definition posixmq_close :: "'k os \<Rightarrow> c_int \<Rightarrow> 'k proc \<Rightarrow> c_int \<times> 'k proc" where
  "posixmq_close os mq w =
     (let (r, e, k) = mq_close os mq (kernel w);
          w1 = syscall_done (Mq_close mq) e k w
      in if sint r < 0 then (- 1, printf_errno w1) else (0, w1))"

definition posixmq_unlink :: "'k os \<Rightarrow> string \<Rightarrow> 'k proc \<Rightarrow> c_int \<times> 'k proc" where
  "posixmq_unlink os name w =
     (let (r, e, k) = mq_unlink os name (kernel w);
          w1 = syscall_done (Mq_unlink name) e k w
      in if sint r < 0 then (- 1, printf_errno w1) else (0, w1))"

definition posixmq_send ::
  "'k os \<Rightarrow> c_int \<Rightarrow> string \<Rightarrow> size_t \<Rightarrow> c_uint \<Rightarrow> 'k proc \<Rightarrow> (c_int \<times> 'k proc) option" where
  "posixmq_send os mq msg sz priority w =
     (case mq_send os mq msg sz priority (kernel w) of
        None \<Rightarrow> None
      | Some (r, e, k) \<Rightarrow>
          (let w1 = syscall_done (Mq_send mq msg sz priority) e k w
           in if sint r < 0 then Some (- 1, printf_errno w1) else Some (0, w1)))"

text \<open>
  \<open>size_t res = mq_receive(...)\<close>: the \<open>ssize_t\<close> result is stored in an unsigned
  variable, which keeps its 64 bits; \<open>res < 0\<close> is then the unsigned comparison, the order
  of the word type. The bytes and the priority the call wrote are copied over the start of
  the caller's buffer and into the priority cell.
\<close>

definition posixmq_recv ::
  "'k os \<Rightarrow> c_int \<Rightarrow> string \<Rightarrow> size_t \<Rightarrow> c_uint \<Rightarrow> 'k proc
     \<Rightarrow> (c_int \<times> string \<times> size_t \<times> c_uint \<times> 'k proc) option" where
  "posixmq_recv os mq buf_out size_inout priority_out w =
     (case mq_receive os mq size_inout (kernel w) of
        None \<Rightarrow> None
      | Some ((r, written), e, k) \<Rightarrow>
          (let w1 = syscall_done (Mq_receive mq size_inout) e k w;
               buf1 = (case written of None \<Rightarrow> buf_out
                       | Some (m, p) \<Rightarrow> m @ drop (length m) buf_out);
               prio1 = (case written of None \<Rightarrow> priority_out | Some (m, p) \<Rightarrow> p);
               res = (r :: size_t)
           in if res < 0 then Some (- 1, buf1, size_inout, prio1, printf_errno w1)
              else Some (0, buf1, res, prio1, w1)))"

section \<open>The send tool (\<open>mqsend.c\<close>)\<close>

text \<open>
  \<open>argv\<close> holds the program name and the positional arguments, and \<open>argc\<close> is its length.
  The result is the exit status and the process state at exit, or \<open>None\<close> when \<open>mq_send\<close>
  never returns.
\<close>

definition main :: "'k os \<Rightarrow> string list \<Rightarrow> 'k proc \<Rightarrow> (c_int \<times> 'k proc) option" where
  "main os argv w =
     (let argc = int (length argv) in
      if argc \<noteq> 4 then Some (1, perror os ''Usage: mqsend QUEUE_NAME MSG PRIO'' w)
      else
        (let queue_name = argv ! 1;
             msg = argv ! 2;
             priority = atoi (argv ! 3);
             (mqd, e, k) = mq_open os queue_name O_RDWR None (kernel w);
             w1 = syscall_done (Mq_open queue_name O_RDWR None) e k w
         in if sint mqd < 0
            then Some (1, w1\<lparr>stderr := stderr w1 @ ''Opening queue: '' @ queue_name
                              @ '' failed with error: '' @ dec_int (sint (errno w1))
                              @ [CHR 0x0A]\<rparr>)
            else
              (let msg_len = (of_nat (length msg) :: size_t) in
               case mq_send os mqd msg msg_len 1 (kernel w1) of
                 None \<Rightarrow> None
               | Some (send_res, e2, k2) \<Rightarrow>
                   (let w2 = syscall_done (Mq_send mqd msg msg_len 1) e2 k2 w1
                    in if send_res \<noteq> 0
                       then Some (1, w2\<lparr>stderr := stderr w2 @ ''Message send failed with error: ''
                                         @ dec_int (sint (errno w2)) @ [CHR 0x0A]\<rparr>)
                       else Some (0, w2)))))"

section \<open>A reference operating system\<close>

text \<open>
  Modelled from the spec: the message queues of the operating system, which the
  repository calls (\<open>mq_open\<close>, \<open>mq_getattr\<close>, \<open>mq_close\<close>, \<open>mq_unlink\<close>, \<open>mq_send\<close>,
  \<open>mq_receive\<close>) and does not contain. The spec's sections 3 and 4.1 describe them: a
  global namespace of queues; attributes fixed when a queue is created and ignored when
  create-or-open finds the queue present; open-existing failing with not-found on an absent
  name; unlink removing the name only, the queue staying usable through the handles open
  on it; send failing on an oversized message or an invalid handle and blocking on a full
  queue; receive handing out the oldest message of the highest priority, failing on a
  buffer smaller than the queue's message size or an invalid handle and blocking on an
  empty queue. A failing call returns \<open>-1\<close> and stores the error number. Descriptors are
  the lowest free ones below a limit, and never beyond the range of \<open>int\<close>. Permissions, signals and other processes are not
  modelled, and every descriptor is open for reading and writing, as every open of the
  code asks.
\<close>

definition ENOENT :: c_int where "ENOENT = 2"
definition EBADF :: c_int where "EBADF = 9"
definition EACCES :: c_int where "EACCES = 13"
definition EINVAL :: c_int where "EINVAL = 22"
definition EMFILE :: c_int where "EMFILE = 24"
definition ENAMETOOLONG :: c_int where "ENAMETOOLONG = 36"
definition EMSGSIZE :: c_int where "EMSGSIZE = 90"

definition MQ_PRIO_MAX :: c_uint where "MQ_PRIO_MAX = 32768"

record mqueue =
  q_maxmsg :: c_long
  q_msgsize :: c_long
  q_msgs :: "(c_uint \<times> string) list"

record kernel =
  k_names :: "string \<rightharpoonup> nat"
  k_queues :: "nat \<rightharpoonup> mqueue"
  k_fds :: "mqd_t \<rightharpoonup> nat"
  k_next :: nat
  k_nofile :: nat
  k_msg_max :: c_long
  k_msgsize_max :: c_long

text \<open>A queue name is a slash followed by one to 255 characters that are no slash.\<close>

definition name_error :: "string \<Rightarrow> c_int option" where
  "name_error name =
     (case name of
        [] \<Rightarrow> Some EINVAL
      | c # rest \<Rightarrow>
          if c \<noteq> CHR ''/'' then Some EINVAL
          else if rest = [] then Some ENOENT
          else if CHR ''/'' \<in> set rest then Some EACCES
          else if 255 < length rest then Some ENAMETOOLONG
          else None)"

definition free_fd :: "kernel \<Rightarrow> mqd_t option" where
  "free_fd k = find (\<lambda>d. k_fds k d = None) (map of_nat [0..<min (k_nofile k) (2 ^ 31)])"

definition attr_ok :: "kernel \<Rightarrow> mq_attr \<Rightarrow> bool" where
  "attr_ok k a =
     (0 < sint (mq_maxmsg a) \<and> sint (mq_maxmsg a) \<le> sint (k_msg_max k) \<and>
      0 < sint (mq_msgsize a) \<and> sint (mq_msgsize a) \<le> sint (k_msgsize_max k))"

definition fd_queue :: "kernel \<Rightarrow> mqd_t \<Rightarrow> (nat \<times> mqueue) option" where
  "fd_queue k d =
     (case k_fds k d of
        None \<Rightarrow> None
      | Some qid \<Rightarrow> (case k_queues k qid of None \<Rightarrow> None | Some q \<Rightarrow> Some (qid, q)))"

definition ref_mq_open ::
  "string \<Rightarrow> c_int \<Rightarrow> (mode_t \<times> mq_attr) option \<Rightarrow> kernel \<Rightarrow> mqd_t \<times> c_int option \<times> kernel" where
  "ref_mq_open name oflag creat k =
     (case name_error name of
        Some e \<Rightarrow> (- 1, Some e, k)
      | None \<Rightarrow>
          (case free_fd k of
             None \<Rightarrow> (- 1, Some EMFILE, k)
           | Some fd \<Rightarrow>
               (case k_names k name of
                  Some qid \<Rightarrow> (fd, None, k\<lparr>k_fds := (k_fds k)(fd \<mapsto> qid)\<rparr>)
                | None \<Rightarrow>
                    (case (if oflag AND O_CREAT = 0 then None else creat) of
                       None \<Rightarrow> (- 1, Some ENOENT, k)
                     | Some (mode, a) \<Rightarrow>
                         if \<not> attr_ok k a then (- 1, Some EINVAL, k)
                         else
                           (fd, None,
                            k\<lparr>k_names := (k_names k)(name \<mapsto> k_next k),
                              k_queues := (k_queues k)(k_next k \<mapsto>
                                 \<lparr>q_maxmsg = mq_maxmsg a, q_msgsize = mq_msgsize a, q_msgs = []\<rparr>),
                              k_fds := (k_fds k)(fd \<mapsto> k_next k),
                              k_next := Suc (k_next k)\<rparr>)))))"

definition ref_mq_getattr ::
  "mqd_t \<Rightarrow> kernel \<Rightarrow> (c_int \<times> mq_attr option) \<times> c_int option \<times> kernel" where
  "ref_mq_getattr d k =
     (case fd_queue k d of
        None \<Rightarrow> ((- 1, None), Some EBADF, k)
      | Some (qid, q) \<Rightarrow>
          ((0, Some \<lparr>mq_flags = 0, mq_maxmsg = q_maxmsg q, mq_msgsize = q_msgsize q,
                     mq_curmsgs = of_nat (length (q_msgs q))\<rparr>), None, k))"

definition ref_mq_close :: "mqd_t \<Rightarrow> kernel \<Rightarrow> c_int \<times> c_int option \<times> kernel" where
  "ref_mq_close d k =
     (case k_fds k d of
        None \<Rightarrow> (- 1, Some EBADF, k)
      | Some qid \<Rightarrow> (0, None, k\<lparr>k_fds := (k_fds k)(d := None)\<rparr>))"

definition ref_mq_unlink :: "string \<Rightarrow> kernel \<Rightarrow> c_int \<times> c_int option \<times> kernel" where
  "ref_mq_unlink name k =
     (case name_error name of
        Some e \<Rightarrow> (- 1, Some e, k)
      | None \<Rightarrow>
          (case k_names k name of
             None \<Rightarrow> (- 1, Some ENOENT, k)
           | Some qid \<Rightarrow> (0, None, k\<lparr>k_names := (k_names k)(name := None)\<rparr>)))"

text \<open>
  A new message goes behind every queued message of its priority or a higher one, so the
  head of the list is the oldest message of the highest priority.
\<close>

fun enqueue :: "c_uint \<times> string \<Rightarrow> (c_uint \<times> string) list \<Rightarrow> (c_uint \<times> string) list" where
  "enqueue m [] = [m]"
| "enqueue m (x # xs) = (if fst x < fst m then m # x # xs else x # enqueue m xs)"

definition ref_mq_send ::
  "mqd_t \<Rightarrow> string \<Rightarrow> size_t \<Rightarrow> c_uint \<Rightarrow> kernel \<Rightarrow> (c_int \<times> c_int option \<times> kernel) option" where
  "ref_mq_send d msg msg_len prio k =
     (case fd_queue k d of
        None \<Rightarrow> Some (- 1, Some EBADF, k)
      | Some (qid, q) \<Rightarrow>
          if q_msgsize q < msg_len then Some (- 1, Some EMSGSIZE, k)
          else if MQ_PRIO_MAX \<le> prio then Some (- 1, Some EINVAL, k)
          else if unat (q_maxmsg q) \<le> length (q_msgs q) then None
          else Some (0, None,
                 k\<lparr>k_queues := (k_queues k)(qid \<mapsto>
                      q\<lparr>q_msgs := enqueue (prio, take (unat msg_len) msg) (q_msgs q)\<rparr>)\<rparr>))"

definition ref_mq_receive ::
  "mqd_t \<Rightarrow> size_t \<Rightarrow> kernel
     \<Rightarrow> ((ssize_t \<times> (string \<times> c_uint) option) \<times> c_int option \<times> kernel) option" where
  "ref_mq_receive d msg_len k =
     (case fd_queue k d of
        None \<Rightarrow> Some ((- 1, None), Some EBADF, k)
      | Some (qid, q) \<Rightarrow>
          if msg_len < q_msgsize q then Some ((- 1, None), Some EMSGSIZE, k)
          else
            (case q_msgs q of
               [] \<Rightarrow> None
             | (p, m) # rest \<Rightarrow>
                 Some ((of_nat (length m), Some (m, p)), None,
                   k\<lparr>k_queues := (k_queues k)(qid \<mapsto> q\<lparr>q_msgs := rest\<rparr>)\<rparr>)))"

definition ref_strerror :: "c_int \<Rightarrow> string" where
  "ref_strerror e =
     (if e = 0 then ''Success''
      else if e = ENOENT then ''No such file or directory''
      else if e = EBADF then ''Bad file descriptor''
      else if e = EACCES then ''Permission denied''
      else if e = EINVAL then ''Invalid argument''
      else if e = EMFILE then ''Too many open files''
      else if e = ENAMETOOLONG then ''File name too long''
      else if e = EMSGSIZE then ''Message too long''
      else ''Unknown error '' @ dec_int (sint e))"

definition ref_os :: "kernel os" where
  "ref_os =
     \<lparr>mq_open = ref_mq_open, mq_getattr = ref_mq_getattr, mq_close = ref_mq_close,
      mq_unlink = ref_mq_unlink, mq_send = ref_mq_send, mq_receive = ref_mq_receive,
      strerror = ref_strerror\<rparr>"

subsection \<open>Concrete process states\<close>

text \<open>
  \<open>boot\<close>: no queue exists and no descriptor is open; four descriptors may be open at a
  time. \<open>idle\<close>: the queue \<open>/q\<close> exists, with room for two messages of at most eight
  bytes, is empty and is open as descriptor 0. \<open>busy\<close>: as \<open>idle\<close>, and the queue
  holds the message \<open>hello\<close> of priority 5.
\<close>

definition boot_kernel :: kernel where
  "boot_kernel =
     \<lparr>k_names = Map.empty, k_queues = Map.empty, k_fds = Map.empty, k_next = 0,
      k_nofile = 4, k_msg_max = 10, k_msgsize_max = 8192\<rparr>"

definition boot :: "kernel proc" where
  "boot = \<lparr>kernel = boot_kernel, errno = 0, stdout = [], stderr = [], trace = []\<rparr>"

definition idle_kernel :: kernel where
  "idle_kernel =
     \<lparr>k_names = [''/q'' \<mapsto> 0],
      k_queues = [0 \<mapsto> \<lparr>q_maxmsg = 2, q_msgsize = 8, q_msgs = []\<rparr>],
      k_fds = [0 \<mapsto> 0], k_next = 1,
      k_nofile = 4, k_msg_max = 10, k_msgsize_max = 8192\<rparr>"

definition idle :: "kernel proc" where
  "idle = \<lparr>kernel = idle_kernel, errno = 0, stdout = [], stderr = [], trace = []\<rparr>"

definition busy_kernel :: kernel where
  "busy_kernel =
     \<lparr>k_names = [''/q'' \<mapsto> 0],
      k_queues = [0 \<mapsto> \<lparr>q_maxmsg = 2, q_msgsize = 8, q_msgs = [(5, ''hello'')]\<rparr>],
      k_fds = [0 \<mapsto> 0], k_next = 1,
      k_nofile = 4, k_msg_max = 10, k_msgsize_max = 8192\<rparr>"

definition busy :: "kernel proc" where
  "busy = \<lparr>kernel = busy_kernel, errno = 0, stdout = [], stderr = [], trace = []\<rparr>"

section \<open>Auxiliary facts\<close>

lemma syscall_done_sel [simp]:
  "kernel (syscall_done ev e k w) = k"
  "errno (syscall_done ev e k w) = (case e of None \<Rightarrow> errno w | Some x \<Rightarrow> x)"
  "stdout (syscall_done ev e k w) = stdout w"
  "stderr (syscall_done ev e k w) = stderr w"
  "trace (syscall_done ev e k w) = trace w @ [ev]"
  by (simp_all add: syscall_done_def)

lemma printf_errno_sel [simp]:
  "kernel (printf_errno w) = kernel w"
  "errno (printf_errno w) = errno w"
  "stdout (printf_errno w) = stdout w @ ''Errno: '' @ dec_int (sint (errno w)) @ [CHR 0x0A]"
  "stderr (printf_errno w) = stderr w"
  "trace (printf_errno w) = trace w"
  by (simp_all add: printf_errno_def)

lemma main_usage:
  "length argv \<noteq> 4 \<Longrightarrow>
   main os argv w = Some (1, perror os ''Usage: mqsend QUEUE_NAME MSG PRIO'' w)"
  by (simp add: main_def)

lemma main_opened:
  assumes "mq_open os q O_RDWR None (kernel w) = (mqd, e, k)" and "\<not> sint mqd < 0"
  shows "main os [prog, q, m, prio] w =
     (case mq_send os mqd m (of_nat (length m)) 1 k of
        None \<Rightarrow> None
      | Some (send_res, e2, k2) \<Rightarrow>
          (let w2 = syscall_done (Mq_send mqd m (of_nat (length m)) 1) e2 k2
                      (syscall_done (Mq_open q O_RDWR None) e k w)
           in if send_res \<noteq> 0
              then Some (1, w2\<lparr>stderr := stderr w2 @ ''Message send failed with error: ''
                                @ dec_int (sint (errno w2)) @ [CHR 0x0A]\<rparr>)
              else Some (0, w2)))"
  using assms by (simp add: main_def Let_def)

lemma sint_small: "n < 2 ^ 31 \<Longrightarrow> sint (of_nat n :: 32 word) = int n"
  by (simp add: signed_of_nat signed_take_bit_int_eq_self)

lemma free_fd_nonneg: "free_fd k = Some fd \<Longrightarrow> \<not> sint fd < 0"
proof -
  assume "free_fd k = Some fd"
  then obtain n where n: "n < 2 ^ 31" and fd: "fd = of_nat n"
    by (auto simp: free_fd_def find_Some_iff)
  from n have "sint (of_nat n :: 32 word) = int n"
    by (rule sint_small)
  with fd show ?thesis by simp
qed

lemma ref_mq_open_present:
  assumes "k_names k name = Some qid" and "name_error name = None" and "free_fd k = Some fd"
  shows "ref_mq_open name oflag creat k = (fd, None, k\<lparr>k_fds := (k_fds k)(fd \<mapsto> qid)\<rparr>)"
  using assms by (simp add: ref_mq_open_def)

lemma boot_failures:
  "mq_open ref_os ''/nope'' (O_CREAT OR O_RDWR)
       (Some (0x1A4, \<lparr>mq_flags = 0, mq_maxmsg = 0, mq_msgsize = 0, mq_curmsgs = 0\<rparr>))
       (kernel boot) = (- 1, Some EINVAL, boot_kernel)"
  "mq_open ref_os ''/nope'' O_RDWR None (kernel boot) = (- 1, Some ENOENT, boot_kernel)"
  "mq_close ref_os 7 (kernel boot) = (- 1, Some EBADF, boot_kernel)"
  "mq_unlink ref_os ''/nope'' (kernel boot) = (- 1, Some ENOENT, boot_kernel)"
  "mq_send ref_os 7 ''hi'' 2 1 (kernel boot) = Some (- 1, Some EBADF, boot_kernel)"
  by (simp_all add: ref_os_def ref_mq_open_def ref_mq_close_def ref_mq_unlink_def ref_mq_send_def
      fd_queue_def name_error_def free_fd_def attr_ok_def boot_def boot_kernel_def upt_rec
      O_CREAT_def O_RDWR_def)

lemma dec_int_errnos:
  "dec_int (sint EINVAL) = ''22''" "dec_int (sint ENOENT) = ''2''" "dec_int (sint EBADF) = ''9''"
  by (simp_all add: EINVAL_def ENOENT_def EBADF_def dec_int_def dec_nat.simps)

section \<open>The receive operation\<close>

text \<open>
  Claim C1: a receive with a buffer smaller than the queue's message size, or on an
  invalid handle, fails with a non-zero result and does not dequeue the message. The code
  does not report the failure: on the queue \<open>/q\<close> of \<open>busy\<close> (message size 8, one message
  queued) and a buffer of 4 bytes, \<open>mq_receive\<close> fails with \<open>EMSGSIZE\<close> and leaves the queue
  as it was, and \<open>posixmq_recv\<close> returns 0, prints nothing and stores \<open>-1\<close>, as a \<open>size_t\<close>,
  in the size cell.
\<close>

theorem posixmq_recv_small_buffer_returns_0:
  "posixmq_recv ref_os 0 ''xxxx'' 4 0 busy =
     Some (0, ''xxxx'', - 1, 0, busy\<lparr>errno := EMSGSIZE, trace := [Mq_receive 0 4]\<rparr>)"
  by (simp add: posixmq_recv_def ref_os_def ref_mq_receive_def fd_queue_def busy_def
      busy_kernel_def syscall_done_def word_less_nat_alt)

text \<open>
  Claim C10: in \<open>posixmq_recv\<close> the result of the call is held in an unsigned variable, so
  \<open>res < 0\<close> never holds and the error branch is never taken: whenever \<open>mq_receive\<close>
  returns, with whatever result, \<open>posixmq_recv\<close> returns 0, prints nothing and stores the
  result in the size cell; when \<open>mq_receive\<close> has returned \<open>-1\<close> the stored size is
  \<open>2 ^ 64 - 1\<close>.
\<close>

theorem posixmq_recv_never_reports_failure:
  "mq_receive os mq sz (kernel w) = Some ((r, written), e, k) \<Longrightarrow>
   \<not> r < 0 \<and>
   (\<exists>buf' sz' prio' w'. posixmq_recv os mq buf sz prio w = Some (0, buf', sz', prio', w') \<and>
      sz' = r \<and> (r = - 1 \<longrightarrow> unat sz' = 2 ^ 64 - 1) \<and>
      stdout w' = stdout w \<and> stderr w' = stderr w)"
  by (simp add: posixmq_recv_def Let_def unsigned_minus_1_eq_mask mask_eq_exp_minus_1)

theorem posixmq_recv_never_reports_failure_witness:
  "mq_receive ref_os 7 8 (kernel busy) = Some ((- 1, None), Some EBADF, busy_kernel) \<and>
   (\<exists>buf' sz' prio' w'. posixmq_recv ref_os 7 ''xxxxxxxx'' 8 0 busy = Some (0, buf', sz', prio', w') \<and>
      unat sz' = 2 ^ 64 - 1 \<and> stdout w' = [] \<and> stderr w' = [])"
proof -
  have f: "mq_receive ref_os 7 8 (kernel busy) = Some ((- 1, None), Some EBADF, busy_kernel)"
    by (simp add: ref_os_def ref_mq_receive_def fd_queue_def busy_def busy_kernel_def)
  from posixmq_recv_never_reports_failure [OF f, of "''xxxxxxxx''" 0] f
  show ?thesis by (auto simp: busy_def)
qed

section \<open>Send and receive\<close>

text \<open>
  Claim C3: on the reference operating system, a message sent with success to an empty
  queue and then received into a buffer at least as large as the queue's message size comes
  back unchanged: \<open>posixmq_recv\<close> returns 0, the size cell holds the byte count sent, the
  priority cell the priority sent, and the buffer starts with the bytes sent. The two
  handles \<open>mq\<close> and \<open>mq'\<close> may be one handle or two handles of the queue. \<open>sz\<close> bytes are
  readable at \<open>msg\<close> and \<open>cap\<close> bytes are writable at \<open>buf\<close>.
\<close>

theorem send_then_recv_roundtrip:
  assumes fd: "k_fds (kernel w) mq = Some qid"
    and rfd: "k_fds (kernel w) mq' = Some qid"
    and q: "k_queues (kernel w) qid = Some q"
    and empty: "q_msgs q = []"
    and sent: "posixmq_send ref_os mq msg sz priority w = Some (0, w1)"
    and readable: "unat sz \<le> length msg"
    and cap: "q_msgsize q \<le> cap"
    and room: "unat cap \<le> length buf"
  shows "\<exists>buf' w2. posixmq_recv ref_os mq' buf cap prio0 w1 = Some (0, buf', sz, priority, w2) \<and>
           take (unat sz) buf' = take (unat sz) msg \<and>
           length buf' = length buf \<and>
           k_queues (kernel w2) qid = Some q"
proof -
  have k1: "kernel w1 = (kernel w)\<lparr>k_queues := (k_queues (kernel w))(qid \<mapsto>
               q\<lparr>q_msgs := [(priority, take (unat sz) msg)]\<rparr>)\<rparr>"
    and fits: "\<not> q_msgsize q < sz"
    using sent fd q empty
    by (auto simp: posixmq_send_def ref_os_def ref_mq_send_def fd_queue_def Let_def
        split: if_splits)
  have len: "length (take (unat sz) msg) = unat sz"
    using readable by simp
  have le: "unat sz \<le> length buf"
    using fits cap room by (simp add: word_less_nat_alt word_le_nat_alt)
  have nlt: "\<not> cap < q_msgsize q"
    using cap by simp
  have same: "q\<lparr>q_msgs := []\<rparr> = q"
    using empty by (cases q) simp
  show ?thesis
    using rfd k1 nlt len le same
    by (simp add: posixmq_recv_def ref_os_def ref_mq_receive_def fd_queue_def Let_def)
qed

theorem send_then_recv_roundtrip_witness:
  "posixmq_send ref_os 0 ''hi'' 2 7 idle =
     Some (0, idle\<lparr>kernel := idle_kernel\<lparr>k_queues := [0 \<mapsto>
                \<lparr>q_maxmsg = 2, q_msgsize = 8, q_msgs = [(7, ''hi'')]\<rparr>]\<rparr>,
              trace := [Mq_send 0 ''hi'' 2 7]\<rparr>) \<and>
   (\<exists>buf' w2. posixmq_recv ref_os 0 ''xxxxxxxx'' 8 0
        (idle\<lparr>kernel := idle_kernel\<lparr>k_queues := [0 \<mapsto>
                \<lparr>q_maxmsg = 2, q_msgsize = 8, q_msgs = [(7, ''hi'')]\<rparr>]\<rparr>,
              trace := [Mq_send 0 ''hi'' 2 7]\<rparr>) = Some (0, buf', 2, 7, w2) \<and>
      take 2 buf' = ''hi'')"
proof -
  let ?q = "\<lparr>q_maxmsg = 2, q_msgsize = 8, q_msgs = []\<rparr>"
  have fd: "k_fds (kernel idle) 0 = Some 0"
    by (simp add: idle_def idle_kernel_def)
  have q: "k_queues (kernel idle) 0 = Some ?q"
    by (simp add: idle_def idle_kernel_def)
  have sent: "posixmq_send ref_os 0 ''hi'' 2 7 idle =
     Some (0, idle\<lparr>kernel := idle_kernel\<lparr>k_queues := [0 \<mapsto>
                \<lparr>q_maxmsg = 2, q_msgsize = 8, q_msgs = [(7, ''hi'')]\<rparr>]\<rparr>,
              trace := [Mq_send 0 ''hi'' 2 7]\<rparr>)"
    by (simp add: posixmq_send_def ref_os_def ref_mq_send_def fd_queue_def idle_def idle_kernel_def
        syscall_done_def MQ_PRIO_MAX_def word_le_nat_alt word_less_nat_alt)
  have "\<exists>buf' w2. posixmq_recv ref_os 0 ''xxxxxxxx'' 8 0
        (idle\<lparr>kernel := idle_kernel\<lparr>k_queues := [0 \<mapsto>
                \<lparr>q_maxmsg = 2, q_msgsize = 8, q_msgs = [(7, ''hi'')]\<rparr>]\<rparr>,
              trace := [Mq_send 0 ''hi'' 2 7]\<rparr>) = Some (0, buf', 2, 7, w2) \<and>
      take (unat (2 :: size_t)) buf' = take (unat (2 :: size_t)) ''hi'' \<and>
      length buf' = length ''xxxxxxxx'' \<and>
      k_queues (kernel w2) 0 = Some ?q"
    by (rule send_then_recv_roundtrip [OF fd fd q _ sent]) simp_all
  with sent show ?thesis by auto
qed

section \<open>Create, then open\<close>

text \<open>
  Claim C4 (as amended): on the reference operating system, after a successful
  \<open>posixmq_open_create\<close>, while a descriptor is still free, \<open>posixmq_open_existing\<close> on the
  same name succeeds, returns that descriptor and writes the attributes the queue was
  created with: the message size and the depth passed to \<open>posixmq_open_create\<close> when no
  queue of the name existed before that call, and the attributes of the existing queue when
  one did.
\<close>

theorem create_then_open_existing:
  assumes created: "posixmq_open_create ref_os name max_msg_size max_queue_size cell w = (0, mqd, w1)"
    and free: "free_fd (kernel w1) = Some fd"
  shows "(k_names (kernel w) name = None \<longrightarrow>
           (\<exists>w2. posixmq_open_existing ref_os attrs0 name c1 c2 c3 w1 =
              (0, fd, max_msg_size, max_queue_size, w2))) \<and>
         (\<forall>qid q. k_names (kernel w) name = Some qid \<and> k_queues (kernel w) qid = Some q \<longrightarrow>
           (\<exists>w2. posixmq_open_existing ref_os attrs0 name c1 c2 c3 w1 =
              (0, fd, q_msgsize q, q_maxmsg q, w2)))"
proof -
  let ?a = "\<lparr>mq_flags = 0, mq_maxmsg = max_queue_size, mq_msgsize = max_msg_size, mq_curmsgs = 0\<rparr>"
  obtain r e k where o: "ref_mq_open name (O_CREAT OR O_RDWR) (Some (0x1A4, ?a)) (kernel w) = (r, e, k)"
    by (cases "ref_mq_open name (O_CREAT OR O_RDWR) (Some (0x1A4, ?a)) (kernel w)") auto
  from created o have ok: "\<not> sint r < 0" and k: "kernel w1 = k"
    by (auto simp: posixmq_open_create_def ref_os_def Let_def split: if_splits)
  from o ok have ne: "name_error name = None"
    by (auto simp: ref_mq_open_def split: option.splits)
  have pos: "\<not> sint fd < 0"
    using free by (rule free_fd_nonneg)
  have fd: "free_fd k = Some fd"
    using free k by simp
  have absent: "\<exists>w2. posixmq_open_existing ref_os attrs0 name c1 c2 c3 w1 =
      (0, fd, max_msg_size, max_queue_size, w2)"
    if none: "k_names (kernel w) name = None"
  proof -
    from o ok none have names: "k_names k name = Some (k_next (kernel w))"
      and queue: "k_queues k (k_next (kernel w)) =
          Some \<lparr>q_maxmsg = max_queue_size, q_msgsize = max_msg_size, q_msgs = []\<rparr>"
      by (auto simp: ref_mq_open_def O_CREAT_def O_RDWR_def split: option.splits if_splits)
    have o2: "ref_mq_open name O_RDWR None k =
        (fd, None, k\<lparr>k_fds := (k_fds k)(fd \<mapsto> k_next (kernel w))\<rparr>)"
      using names ne fd by (rule ref_mq_open_present)
    show ?thesis
      using o2 pos k queue
      by (simp add: posixmq_open_existing_def ref_os_def ref_mq_getattr_def fd_queue_def Let_def)
  qed
  have present: "\<exists>w2. posixmq_open_existing ref_os attrs0 name c1 c2 c3 w1 =
      (0, fd, q_msgsize q, q_maxmsg q, w2)"
    if some: "k_names (kernel w) name = Some qid" and q: "k_queues (kernel w) qid = Some q"
    for qid q
  proof -
    from o ok some q have names: "k_names k name = Some qid" and queue: "k_queues k qid = Some q"
      by (auto simp: ref_mq_open_def split: option.splits)
    have o2: "ref_mq_open name O_RDWR None k = (fd, None, k\<lparr>k_fds := (k_fds k)(fd \<mapsto> qid)\<rparr>)"
      using names ne fd by (rule ref_mq_open_present)
    show ?thesis
      using o2 pos k queue
      by (simp add: posixmq_open_existing_def ref_os_def ref_mq_getattr_def fd_queue_def Let_def)
  qed
  from absent present show ?thesis by blast
qed

theorem create_then_open_existing_witness:
  "posixmq_open_create ref_os ''/a'' 16 5 0 boot =
     (0, 0, boot\<lparr>kernel := boot_kernel\<lparr>k_names := [''/a'' \<mapsto> 0],
                      k_queues := [0 \<mapsto> \<lparr>q_maxmsg = 5, q_msgsize = 16, q_msgs = []\<rparr>],
                      k_fds := [0 \<mapsto> 0], k_next := Suc 0\<rparr>,
                   trace := [Mq_open ''/a'' (O_CREAT OR O_RDWR)
                     (Some (0x1A4, \<lparr>mq_flags = 0, mq_maxmsg = 5, mq_msgsize = 16, mq_curmsgs = 0\<rparr>))]\<rparr>) \<and>
   (\<exists>w2. posixmq_open_existing ref_os
        \<lparr>mq_flags = 0, mq_maxmsg = 0, mq_msgsize = 0, mq_curmsgs = 0\<rparr> ''/a'' 0 0 0
        (boot\<lparr>kernel := boot_kernel\<lparr>k_names := [''/a'' \<mapsto> 0],
                      k_queues := [0 \<mapsto> \<lparr>q_maxmsg = 5, q_msgsize = 16, q_msgs = []\<rparr>],
                      k_fds := [0 \<mapsto> 0], k_next := Suc 0\<rparr>,
                   trace := [Mq_open ''/a'' (O_CREAT OR O_RDWR)
                     (Some (0x1A4, \<lparr>mq_flags = 0, mq_maxmsg = 5, mq_msgsize = 16, mq_curmsgs = 0\<rparr>))]\<rparr>)
      = (0, 1, 16, 5, w2)) \<and>
   posixmq_open_create ref_os ''/q'' 16 5 0 busy =
     (0, 1, busy\<lparr>kernel := busy_kernel\<lparr>k_fds := [0 \<mapsto> 0, 1 \<mapsto> 0]\<rparr>,
                   trace := [Mq_open ''/q'' (O_CREAT OR O_RDWR)
                     (Some (0x1A4, \<lparr>mq_flags = 0, mq_maxmsg = 5, mq_msgsize = 16, mq_curmsgs = 0\<rparr>))]\<rparr>) \<and>
   (\<exists>w2. posixmq_open_existing ref_os
        \<lparr>mq_flags = 0, mq_maxmsg = 0, mq_msgsize = 0, mq_curmsgs = 0\<rparr> ''/q'' 0 0 0
        (busy\<lparr>kernel := busy_kernel\<lparr>k_fds := [0 \<mapsto> 0, 1 \<mapsto> 0]\<rparr>,
               trace := [Mq_open ''/q'' (O_CREAT OR O_RDWR)
                 (Some (0x1A4, \<lparr>mq_flags = 0, mq_maxmsg = 5, mq_msgsize = 16, mq_curmsgs = 0\<rparr>))]\<rparr>)
      = (0, 2, 8, 2, w2))"
proof -
  let ?junk = "\<lparr>mq_flags = 0, mq_maxmsg = 0, mq_msgsize = 0, mq_curmsgs = 0\<rparr>"
  let ?ev = "\<lambda>n. Mq_open n (O_CREAT OR O_RDWR)
      (Some (0x1A4, \<lparr>mq_flags = 0, mq_maxmsg = 5, mq_msgsize = 16, mq_curmsgs = 0\<rparr>))"
  let ?w1 = "boot\<lparr>kernel := boot_kernel\<lparr>k_names := [''/a'' \<mapsto> 0],
                      k_queues := [0 \<mapsto> \<lparr>q_maxmsg = 5, q_msgsize = 16, q_msgs = []\<rparr>],
                      k_fds := [0 \<mapsto> 0], k_next := Suc 0\<rparr>,
                   trace := [?ev ''/a'']\<rparr>"
  let ?v1 = "busy\<lparr>kernel := busy_kernel\<lparr>k_fds := [0 \<mapsto> 0, 1 \<mapsto> 0]\<rparr>, trace := [?ev ''/q'']\<rparr>"
  have absent: "k_names (kernel boot) ''/a'' = None"
    by (simp add: boot_def boot_kernel_def)
  have created: "posixmq_open_create ref_os ''/a'' 16 5 0 boot = (0, 0, ?w1)"
    by (simp add: posixmq_open_create_def ref_os_def ref_mq_open_def name_error_def free_fd_def
        attr_ok_def boot_def boot_kernel_def upt_rec O_CREAT_def O_RDWR_def syscall_done_def)
  have free: "free_fd (kernel ?w1) = Some 1"
    by (simp add: free_fd_def boot_def boot_kernel_def upt_rec)
  have present: "k_names (kernel busy) ''/q'' = Some 0 \<and>
      k_queues (kernel busy) 0 = Some \<lparr>q_maxmsg = 2, q_msgsize = 8, q_msgs = [(5, ''hello'')]\<rparr>"
    by (simp add: busy_def busy_kernel_def)
  have opened: "posixmq_open_create ref_os ''/q'' 16 5 0 busy = (0, 1, ?v1)"
    by (simp add: posixmq_open_create_def ref_os_def ref_mq_open_def name_error_def free_fd_def
        busy_def busy_kernel_def upt_rec O_CREAT_def O_RDWR_def syscall_done_def)
  have free': "free_fd (kernel ?v1) = Some 2"
    by (simp add: free_fd_def busy_def busy_kernel_def upt_rec)
  from create_then_open_existing [OF created free, of ?junk 0 0 0] absent
  have a: "\<exists>w2. posixmq_open_existing ref_os ?junk ''/a'' 0 0 0 ?w1 = (0, 1, 16, 5, w2)"
    by blast
  from create_then_open_existing [OF opened free', of ?junk 0 0 0] present
  have "\<exists>w2. posixmq_open_existing ref_os ?junk ''/q'' 0 0 0 ?v1 =
      (0, 2, q_msgsize \<lparr>q_maxmsg = 2, q_msgsize = 8, q_msgs = [(5, ''hello'')]\<rparr>,
       q_maxmsg \<lparr>q_maxmsg = 2, q_msgsize = 8, q_msgs = [(5, ''hello'')]\<rparr>, w2)"
    by blast
  then have b: "\<exists>w2. posixmq_open_existing ref_os ?junk ''/q'' 0 0 0 ?v1 = (0, 2, 8, 2, w2)"
    by simp
  from created a opened b show ?thesis by blast
qed

text \<open>
  The property as the spec words it fails twice. Where one descriptor only may be open,
  create-or-open of a new queue takes it, and open-existing fails with \<open>EMFILE\<close>. And the
  queue \<open>/q\<close> of \<open>busy\<close> was created with message size 8 and depth 2: create-or-open with
  size 16 and depth 5 opens it and succeeds, and open-existing then reports 8 and 2, not
  the values passed to create-or-open.
\<close>

theorem create_then_open_existing_counterexample:
  "(posixmq_open_create ref_os ''/q'' 16 5 0 busy =
     (0, 1, busy\<lparr>kernel := busy_kernel\<lparr>k_fds := [0 \<mapsto> 0, 1 \<mapsto> 0]\<rparr>,
                   trace := [Mq_open ''/q'' (O_CREAT OR O_RDWR)
                     (Some (0x1A4, \<lparr>mq_flags = 0, mq_maxmsg = 5, mq_msgsize = 16, mq_curmsgs = 0\<rparr>))]\<rparr>) \<and>
   posixmq_open_existing ref_os \<lparr>mq_flags = 0, mq_maxmsg = 0, mq_msgsize = 0, mq_curmsgs = 0\<rparr>
       ''/q'' 0 0 0
       (busy\<lparr>kernel := busy_kernel\<lparr>k_fds := [0 \<mapsto> 0, 1 \<mapsto> 0]\<rparr>,
              trace := [Mq_open ''/q'' (O_CREAT OR O_RDWR)
                (Some (0x1A4, \<lparr>mq_flags = 0, mq_maxmsg = 5, mq_msgsize = 16, mq_curmsgs = 0\<rparr>))]\<rparr>) =
     (0, 2, 8, 2,
       busy\<lparr>kernel := busy_kernel\<lparr>k_fds := [0 \<mapsto> 0, 1 \<mapsto> 0, 2 \<mapsto> 0]\<rparr>,
              trace := [Mq_open ''/q'' (O_CREAT OR O_RDWR)
                (Some (0x1A4, \<lparr>mq_flags = 0, mq_maxmsg = 5, mq_msgsize = 16, mq_curmsgs = 0\<rparr>)),
                Mq_open ''/q'' O_RDWR None, Mq_getattr 2]\<rparr>) \<and>
   ((8, 2) :: size_t \<times> size_t) \<noteq> (16, 5)) \<and>
   (posixmq_open_create ref_os ''/a'' 16 5 0 (boot\<lparr>kernel := boot_kernel\<lparr>k_nofile := 1\<rparr>\<rparr>) =
     (0, 0, boot\<lparr>kernel := boot_kernel\<lparr>k_names := [''/a'' \<mapsto> 0],
                      k_queues := [0 \<mapsto> \<lparr>q_maxmsg = 5, q_msgsize = 16, q_msgs = []\<rparr>],
                      k_fds := [0 \<mapsto> 0], k_next := Suc 0, k_nofile := 1\<rparr>,
                   trace := [Mq_open ''/a'' (O_CREAT OR O_RDWR)
                     (Some (0x1A4, \<lparr>mq_flags = 0, mq_maxmsg = 5, mq_msgsize = 16, mq_curmsgs = 0\<rparr>))]\<rparr>) \<and>
   posixmq_open_existing ref_os \<lparr>mq_flags = 0, mq_maxmsg = 0, mq_msgsize = 0, mq_curmsgs = 0\<rparr>
       ''/a'' 0 0 0
       (boot\<lparr>kernel := boot_kernel\<lparr>k_names := [''/a'' \<mapsto> 0],
                      k_queues := [0 \<mapsto> \<lparr>q_maxmsg = 5, q_msgsize = 16, q_msgs = []\<rparr>],
                      k_fds := [0 \<mapsto> 0], k_next := Suc 0, k_nofile := 1\<rparr>,
                   trace := [Mq_open ''/a'' (O_CREAT OR O_RDWR)
                     (Some (0x1A4, \<lparr>mq_flags = 0, mq_maxmsg = 5, mq_msgsize = 16, mq_curmsgs = 0\<rparr>))]\<rparr>) =
     (- 1, 0, 0, 0,
       boot\<lparr>kernel := boot_kernel\<lparr>k_names := [''/a'' \<mapsto> 0],
                      k_queues := [0 \<mapsto> \<lparr>q_maxmsg = 5, q_msgsize = 16, q_msgs = []\<rparr>],
                      k_fds := [0 \<mapsto> 0], k_next := Suc 0, k_nofile := 1\<rparr>,
              errno := EMFILE, stdout := ''Errno: 24'' @ [CHR 0x0A],
              trace := [Mq_open ''/a'' (O_CREAT OR O_RDWR)
                (Some (0x1A4, \<lparr>mq_flags = 0, mq_maxmsg = 5, mq_msgsize = 16, mq_curmsgs = 0\<rparr>)),
                Mq_open ''/a'' O_RDWR None]\<rparr>))"
  by (simp add: posixmq_open_create_def posixmq_open_existing_def ref_os_def ref_mq_open_def
      ref_mq_getattr_def fd_queue_def name_error_def free_fd_def attr_ok_def busy_def busy_kernel_def
      boot_def boot_kernel_def upt_rec O_CREAT_def O_RDWR_def syscall_done_def printf_errno_def
      EMFILE_def dec_int_def dec_nat.simps)

section \<open>Failures of the library operations\<close>

text \<open>
  Claim C5 (as amended): when the system call of create-or-open, open-existing, close,
  unlink or send reports a failure (a negative result), the operation prints the line
  \<open>Errno: \<close> followed by the value of \<open>errno\<close> on standard output and writes nothing on
  standard error.
\<close>

theorem library_failures_print_to_stdout:
  "(mq_open os name (O_CREAT OR O_RDWR)
       (Some (0x1A4, \<lparr>mq_flags = 0, mq_maxmsg = depth, mq_msgsize = msz, mq_curmsgs = 0\<rparr>))
       (kernel w) = (r1, e1, k1) \<and> sint r1 < 0 \<longrightarrow>
     (\<exists>w'. posixmq_open_create os name msz depth cell w = (- 1, cell, w') \<and>
        stdout w' = stdout w @ ''Errno: ''
          @ dec_int (sint (case e1 of None \<Rightarrow> errno w | Some x \<Rightarrow> x)) @ [CHR 0x0A] \<and>
        stderr w' = stderr w)) \<and>
   (mq_open os name O_RDWR None (kernel w) = (r2, e2, k2) \<and> sint r2 < 0 \<longrightarrow>
     (\<exists>w'. posixmq_open_existing os junk name cell c2 c3 w = (- 1, cell, c2, c3, w') \<and>
        stdout w' = stdout w @ ''Errno: ''
          @ dec_int (sint (case e2 of None \<Rightarrow> errno w | Some x \<Rightarrow> x)) @ [CHR 0x0A] \<and>
        stderr w' = stderr w)) \<and>
   (mq_close os mq (kernel w) = (r3, e3, k3) \<and> sint r3 < 0 \<longrightarrow>
     (\<exists>w'. posixmq_close os mq w = (- 1, w') \<and>
        stdout w' = stdout w @ ''Errno: ''
          @ dec_int (sint (case e3 of None \<Rightarrow> errno w | Some x \<Rightarrow> x)) @ [CHR 0x0A] \<and>
        stderr w' = stderr w)) \<and>
   (mq_unlink os name (kernel w) = (r4, e4, k4) \<and> sint r4 < 0 \<longrightarrow>
     (\<exists>w'. posixmq_unlink os name w = (- 1, w') \<and>
        stdout w' = stdout w @ ''Errno: ''
          @ dec_int (sint (case e4 of None \<Rightarrow> errno w | Some x \<Rightarrow> x)) @ [CHR 0x0A] \<and>
        stderr w' = stderr w)) \<and>
   (mq_send os mq msg sz prio (kernel w) = Some (r5, e5, k5) \<and> sint r5 < 0 \<longrightarrow>
     (\<exists>w'. posixmq_send os mq msg sz prio w = Some (- 1, w') \<and>
        stdout w' = stdout w @ ''Errno: ''
          @ dec_int (sint (case e5 of None \<Rightarrow> errno w | Some x \<Rightarrow> x)) @ [CHR 0x0A] \<and>
        stderr w' = stderr w))"
  by (simp add: posixmq_open_create_def posixmq_open_existing_def posixmq_close_def
      posixmq_unlink_def posixmq_send_def)

theorem library_failures_print_to_stdout_witness:
  "(\<exists>w'. posixmq_open_create ref_os ''/nope'' 0 0 0 boot = (- 1, 0, w') \<and>
      stdout w' = ''Errno: 22'' @ [CHR 0x0A] \<and> stderr w' = []) \<and>
   (\<exists>w'. posixmq_open_existing ref_os \<lparr>mq_flags = 0, mq_maxmsg = 0, mq_msgsize = 0, mq_curmsgs = 0\<rparr>
        ''/nope'' 0 0 0 boot = (- 1, 0, 0, 0, w') \<and>
      stdout w' = ''Errno: 2'' @ [CHR 0x0A] \<and> stderr w' = []) \<and>
   (\<exists>w'. posixmq_close ref_os 7 boot = (- 1, w') \<and>
      stdout w' = ''Errno: 9'' @ [CHR 0x0A] \<and> stderr w' = []) \<and>
   (\<exists>w'. posixmq_unlink ref_os ''/nope'' boot = (- 1, w') \<and>
      stdout w' = ''Errno: 2'' @ [CHR 0x0A] \<and> stderr w' = []) \<and>
   (\<exists>w'. posixmq_send ref_os 7 ''hi'' 2 1 boot = Some (- 1, w') \<and>
      stdout w' = ''Errno: 9'' @ [CHR 0x0A] \<and> stderr w' = [])"
proof -
  have out: "stdout boot = []" "stderr boot = []"
    by (simp_all add: boot_def)
  from library_failures_print_to_stdout [where os = ref_os and w = boot and name = "''/nope''"
      and depth = 0 and msz = 0 and mq = 7 and msg = "''hi''" and sz = 2 and prio = 1
      and cell = 0 and ?c2.0 = 0 and ?c3.0 = 0
      and junk = "\<lparr>mq_flags = 0, mq_maxmsg = 0, mq_msgsize = 0, mq_curmsgs = 0\<rparr>"
      and ?r1.0 = "- 1" and ?e1.0 = "Some EINVAL" and ?k1.0 = boot_kernel
      and ?r2.0 = "- 1" and ?e2.0 = "Some ENOENT" and ?k2.0 = boot_kernel
      and ?r3.0 = "- 1" and ?e3.0 = "Some EBADF" and ?k3.0 = boot_kernel
      and ?r4.0 = "- 1" and ?e4.0 = "Some ENOENT" and ?k4.0 = boot_kernel
      and ?r5.0 = "- 1" and ?e5.0 = "Some EBADF" and ?k5.0 = boot_kernel]
  show ?thesis
    by (simp add: boot_failures dec_int_errnos out)
qed

text \<open>
  The error number does not go to standard error: closing the descriptor 7, which is not
  open, prints \<open>Errno: 9\<close> on standard output and leaves standard error empty.
\<close>

theorem library_failures_print_to_stdout_counterexample:
  "posixmq_close ref_os 7 boot =
     (- 1, boot\<lparr>errno := EBADF, stdout := ''Errno: 9'' @ [CHR 0x0A], trace := [Mq_close 7]\<rparr>) \<and>
   stderr (boot\<lparr>errno := EBADF, stdout := ''Errno: 9'' @ [CHR 0x0A], trace := [Mq_close 7]\<rparr>) = []"
  by (simp add: posixmq_close_def ref_os_def ref_mq_close_def boot_def boot_kernel_def
      syscall_done_def printf_errno_def EBADF_def dec_int_def dec_nat.simps)




section \<open>The send tool\<close>

text \<open>
  Claim C7: called with fewer than three positional arguments (\<open>argv\<close>, which starts with
  the program name, has fewer than four entries), the send tool prints its usage line on
  standard error and exits with status 1; it makes no system call, so it opens no queue.
\<close>

theorem mqsend_too_few_arguments:
  "length argv < 4 \<Longrightarrow>
   \<exists>w'. main os argv w = Some (1, w') \<and> trace w' = trace w \<and> kernel w' = kernel w \<and>
     stdout w' = stdout w \<and>
     stderr w' = stderr w @ ''Usage: mqsend QUEUE_NAME MSG PRIO: '' @ strerror os (errno w) @ [CHR 0x0A]"
  by (simp add: main_usage perror_def)

theorem mqsend_too_few_arguments_witness:
  "length [''mqsend'', ''/q'', ''hi''] < 4 \<and>
   (\<exists>w'. main ref_os [''mqsend'', ''/q'', ''hi''] busy = Some (1, w') \<and> trace w' = [] \<and>
      kernel w' = busy_kernel \<and> stdout w' = [] \<and>
      stderr w' = ''Usage: mqsend QUEUE_NAME MSG PRIO: Success'' @ [CHR 0x0A])"
  using mqsend_too_few_arguments [of "[''mqsend'', ''/q'', ''hi'']" ref_os busy]
  by (simp add: busy_def ref_os_def ref_strerror_def)

text \<open>
  Claim C9: called with more than three positional arguments, the send tool does the same:
  usage line on standard error, exit status 1, no system call.
\<close>

theorem mqsend_too_many_arguments:
  "4 < length argv \<Longrightarrow>
   \<exists>w'. main os argv w = Some (1, w') \<and> trace w' = trace w \<and> kernel w' = kernel w \<and>
     stdout w' = stdout w \<and>
     stderr w' = stderr w @ ''Usage: mqsend QUEUE_NAME MSG PRIO: '' @ strerror os (errno w) @ [CHR 0x0A]"
  by (simp add: main_usage perror_def)

theorem mqsend_too_many_arguments_witness:
  "4 < length [''mqsend'', ''/q'', ''hi'', ''1'', ''extra''] \<and>
   (\<exists>w'. main ref_os [''mqsend'', ''/q'', ''hi'', ''1'', ''extra''] busy = Some (1, w') \<and> trace w' = [] \<and>
      kernel w' = busy_kernel \<and> stdout w' = [] \<and>
      stderr w' = ''Usage: mqsend QUEUE_NAME MSG PRIO: Success'' @ [CHR 0x0A])"
  using mqsend_too_many_arguments [of "[''mqsend'', ''/q'', ''hi'', ''1'', ''extra'']" ref_os busy]
  by (simp add: busy_def ref_os_def ref_strerror_def)

text \<open>
  Claim C2: when the send tool reaches the send step (it has three positional arguments and
  \<open>mq_open\<close> returned a descriptor), the priority argument has no effect on what it does.
  It calls \<open>mq_send\<close> once, with the message, its length and the priority 1, and what that
  call does is what the tool does: the tool fails to return exactly when the call blocks
  for ever; when the call returns, the kernel and \<open>errno\<close> are as the call left them, the
  two system calls are the trace, the exit status is 0 for the result 0 and 1 otherwise,
  with the failure line and the error number on standard error, and standard output is
  untouched.
\<close>

theorem mqsend_sends_at_priority_1:
  assumes "mq_open os q O_RDWR None (kernel w) = (mqd, e, k)" and "\<not> sint mqd < 0"
  shows "main os [prog, q, m, prio] w = main os [prog, q, m, prio'] w \<and>
     (main os [prog, q, m, prio] w = None \<longleftrightarrow> mq_send os mqd m (of_nat (length m)) 1 k = None) \<and>
     (\<forall>send_res e2 k2. mq_send os mqd m (of_nat (length m)) 1 k = Some (send_res, e2, k2) \<longrightarrow>
        (\<exists>w'. main os [prog, q, m, prio] w = Some (if send_res \<noteq> 0 then 1 else 0, w') \<and>
           kernel w' = k2 \<and>
           errno w' = (case e2 of Some x \<Rightarrow> x
                       | None \<Rightarrow> (case e of Some x \<Rightarrow> x | None \<Rightarrow> errno w)) \<and>
           trace w' = trace w @ [Mq_open q O_RDWR None, Mq_send mqd m (of_nat (length m)) 1] \<and>
           stdout w' = stdout w \<and>
           stderr w' = (if send_res \<noteq> 0
                        then stderr w @ ''Message send failed with error: ''
                               @ dec_int (sint (errno w')) @ [CHR 0x0A]
                        else stderr w)))"
  by (auto simp: main_opened [OF assms] Let_def split: option.splits)

theorem mqsend_sends_at_priority_1_witness:
  "main ref_os [''mqsend'', ''/q'', ''hi'', ''7''] busy = main ref_os [''mqsend'', ''/q'', ''hi'', ''0''] busy \<and>
   (\<exists>w'. main ref_os [''mqsend'', ''/q'', ''hi'', ''7''] busy = Some (0, w') \<and>
      kernel w' = busy_kernel\<lparr>k_fds := (k_fds busy_kernel)(1 \<mapsto> 0),
        k_queues := [0 \<mapsto> \<lparr>q_maxmsg = 2, q_msgsize = 8, q_msgs = [(5, ''hello''), (1, ''hi'')]\<rparr>]\<rparr> \<and>
      errno w' = 0 \<and>
      trace w' = [Mq_open ''/q'' O_RDWR None, Mq_send 1 ''hi'' 2 1] \<and>
      stdout w' = [] \<and> stderr w' = [])"
proof -
  have o: "mq_open ref_os ''/q'' O_RDWR None (kernel busy) =
      (1, None, busy_kernel\<lparr>k_fds := (k_fds busy_kernel)(1 \<mapsto> 0)\<rparr>)"
    by (simp add: ref_os_def ref_mq_open_def name_error_def free_fd_def busy_def busy_kernel_def
        upt_rec O_RDWR_def O_CREAT_def)
  have s: "\<not> sint (1 :: mqd_t) < 0" by simp
  note inst = mqsend_sends_at_priority_1 [OF o s, of "''mqsend''" "''hi''" "''7''" "''0''"]
  have t: "mq_send ref_os 1 ''hi'' (of_nat (length ''hi'')) 1
      (busy_kernel\<lparr>k_fds := (k_fds busy_kernel)(1 \<mapsto> 0)\<rparr>) =
      Some (0, None, busy_kernel\<lparr>k_fds := (k_fds busy_kernel)(1 \<mapsto> 0),
        k_queues := [0 \<mapsto> \<lparr>q_maxmsg = 2, q_msgsize = 8, q_msgs = [(5, ''hello''), (1, ''hi'')]\<rparr>]\<rparr>)"
    by (simp add: ref_os_def ref_mq_send_def fd_queue_def busy_kernel_def MQ_PRIO_MAX_def
        word_le_nat_alt word_less_nat_alt)
  from inst have eq: "main ref_os [''mqsend'', ''/q'', ''hi'', ''7''] busy =
      main ref_os [''mqsend'', ''/q'', ''hi'', ''0''] busy"
    by blast
  from inst t have "\<exists>w'. main ref_os [''mqsend'', ''/q'', ''hi'', ''7''] busy =
        Some (if (0 :: c_int) \<noteq> 0 then 1 else 0, w') \<and>
      kernel w' = busy_kernel\<lparr>k_fds := (k_fds busy_kernel)(1 \<mapsto> 0),
        k_queues := [0 \<mapsto> \<lparr>q_maxmsg = 2, q_msgsize = 8, q_msgs = [(5, ''hello''), (1, ''hi'')]\<rparr>]\<rparr> \<and>
      errno w' = (case (None :: c_int option) of Some x \<Rightarrow> x
                  | None \<Rightarrow> (case (None :: c_int option) of Some x \<Rightarrow> x | None \<Rightarrow> errno busy)) \<and>
      trace w' = trace busy @ [Mq_open ''/q'' O_RDWR None, Mq_send 1 ''hi'' (of_nat (length ''hi'')) 1] \<and>
      stdout w' = stdout busy \<and>
      stderr w' = (if (0 :: c_int) \<noteq> 0
                   then stderr busy @ ''Message send failed with error: ''
                          @ dec_int (sint (errno w')) @ [CHR 0x0A]
                   else stderr busy)"
    by blast
  then have "\<exists>w'. main ref_os [''mqsend'', ''/q'', ''hi'', ''7''] busy = Some (0, w') \<and>
      kernel w' = busy_kernel\<lparr>k_fds := (k_fds busy_kernel)(1 \<mapsto> 0),
        k_queues := [0 \<mapsto> \<lparr>q_maxmsg = 2, q_msgsize = 8, q_msgs = [(5, ''hello''), (1, ''hi'')]\<rparr>]\<rparr> \<and>
      errno w' = 0 \<and>
      trace w' = [Mq_open ''/q'' O_RDWR None, Mq_send 1 ''hi'' 2 1] \<and>
      stdout w' = [] \<and> stderr w' = []"
    by (simp add: busy_def)
  with eq show ?thesis by blast
qed

text \<open>
  Claim C8: on the reference operating system, the send tool called with three positional
  arguments, the first the name of a queue that does not exist, fails in the open step:
  \<open>mq_open\<close> returns \<open>-1\<close> and stores an error number, \<open>ENOENT\<close> for a well-formed name
  with a free descriptor, and the tool exits with status 1 after this one call, having
  printed on standard error the line that holds the queue name and that error number.
\<close>

theorem mqsend_missing_queue:
  "k_names (kernel w) q = None \<Longrightarrow>
   \<exists>e. mq_open ref_os q O_RDWR None (kernel w) = (- 1, Some e, kernel w) \<and>
     e = (case name_error q of Some x \<Rightarrow> x
          | None \<Rightarrow> if free_fd (kernel w) = None then EMFILE else ENOENT) \<and>
     (\<exists>w'. main ref_os [prog, q, m, prio] w = Some (1, w') \<and>
        kernel w' = kernel w \<and> errno w' = e \<and> stdout w' = stdout w \<and>
        stderr w' = stderr w @ ''Opening queue: '' @ q @ '' failed with error: ''
                      @ dec_int (sint e) @ [CHR 0x0A] \<and>
        trace w' = trace w @ [Mq_open q O_RDWR None])"
  by (auto simp: main_def ref_os_def ref_mq_open_def O_RDWR_def O_CREAT_def
      split: option.splits)

theorem mqsend_missing_queue_witness:
  "k_names (kernel boot) ''/nope'' = None \<and>
   mq_open ref_os ''/nope'' O_RDWR None (kernel boot) = (- 1, Some ENOENT, boot_kernel) \<and>
   (\<exists>w'. main ref_os [''mqsend'', ''/nope'', ''hi'', ''7''] boot = Some (1, w') \<and>
      kernel w' = boot_kernel \<and> errno w' = ENOENT \<and> stdout w' = [] \<and>
      stderr w' = ''Opening queue: /nope failed with error: 2'' @ [CHR 0x0A] \<and>
      trace w' = [Mq_open ''/nope'' O_RDWR None]) \<and>
   k_names (kernel boot) ''q'' = None \<and>
   mq_open ref_os ''q'' O_RDWR None (kernel boot) = (- 1, Some EINVAL, boot_kernel) \<and>
   (\<exists>w'. main ref_os [''mqsend'', ''q'', ''hi'', ''7''] boot = Some (1, w') \<and>
      kernel w' = boot_kernel \<and> errno w' = EINVAL \<and> stdout w' = [] \<and>
      stderr w' = ''Opening queue: q failed with error: 22'' @ [CHR 0x0A] \<and>
      trace w' = [Mq_open ''q'' O_RDWR None])"
proof -
  have h: "k_names (kernel boot) ''/nope'' = None" "k_names (kernel boot) ''q'' = None"
    by (simp_all add: boot_def boot_kernel_def)
  have n: "name_error ''/nope'' = None" "free_fd boot_kernel = Some 0"
      "name_error ''q'' = Some EINVAL"
    by (simp_all add: name_error_def free_fd_def boot_kernel_def upt_rec)
  have b: "kernel boot = boot_kernel" "errno boot = 0" "stdout boot = []" "stderr boot = []"
      "trace boot = []"
    by (simp_all add: boot_def)
  have h': "k_names boot_kernel ''/nope'' = None" "k_names boot_kernel ''q'' = None"
    by (simp_all add: boot_kernel_def)
  from mqsend_missing_queue [OF h(1), of "''mqsend''" "''hi''" "''7''"]
    mqsend_missing_queue [OF h(2), of "''mqsend''" "''hi''" "''7''"]
  show ?thesis
    by (simp add: h' n b dec_int_errnos)
qed


end
